theory Spec2Isabelle
  imports Main "HOL-Library.Word"
begin

section \<open>The cephfs binding: data\<close>

text \<open>
  The package is a cgo binding of libcephfs. Its integers are machine integers:
  \<open>C.int\<close> is 32 bits and signed (read with \<open>sint\<close>), \<open>C.size_t\<close> is 64 bits and
  unsigned, Go's \<open>int\<close> is 64 bits and signed. A native pointer is an address, \<open>0\<close>
  being \<open>nil\<close>. A Go string is a sequence of bytes; a \<open>[]byte\<close> is \<open>None\<close> when it is
  \<open>nil\<close>.
\<close>

type_synonym byte = "8 word"
type_synonym c_int = "32 word"
type_synonym size_t = "64 word"
type_synonym go_int = "64 word"
type_synonym ptr = nat
type_synonym go_string = "byte list"
type_synonym go_bytes = "byte list option"

abbreviation nil :: ptr where
  "nil \<equiv> 0"

text \<open>\<open>type CephFSError int\<close>; an \<open>error\<close> is \<open>nil\<close> or a \<open>CephFSError\<close>.\<close>

datatype CephFSError = CephFSError (errno: go_int)

type_synonym go_error = "CephFSError option"

text \<open>\<open>type MountInfo struct { mount *C.struct_ceph_mount_info }\<close>\<close>

record MountInfo =
  mount :: ptr

text \<open>The arguments of one \<open>ceph_mds_command\<close> call, as they cross the boundary.\<close>

record mds_call =
  cmount :: ptr
  mds_spec :: ptr
  cmd :: "ptr list"
  cmdlen :: size_t
  inbuf :: ptr
  inbuflen :: size_t

text \<open>
  What libcephfs answers to one \<open>ceph_mds_command\<close>: the numeric result and the two
  buffers it allocates, \<open>None\<close> when it leaves the pointer \<open>nil\<close>. It reports as length
  the size of the buffer it allocated.
\<close>

record mds_reply =
  reply_ret :: c_int
  reply_outbuf :: "byte list option"
  reply_outs :: "byte list option"

text \<open>What the call leaves in the Go variables \<open>ret, outbuf, outbuflen, outs, outslen\<close>.\<close>

record mds_out =
  ret :: c_int
  outbuf :: ptr
  outbuflen :: size_t
  outs :: ptr
  outslen :: size_t

text \<open>
  Everything that happens at the boundary is recorded, in order: the allocations of
  \<open>C.CString\<close>, the calls of \<open>C.free\<close>, the reads of \<open>C.GoStringN\<close> and \<open>C.GoBytes\<close>, the
  buffers libcephfs allocates with what it puts there, and the foreign calls, each
  with its arguments and with what it gave back.
\<close>

datatype event =
    EvCString ptr
  | EvFree ptr
  | EvGoStringN ptr c_int
  | EvGoBytes ptr c_int
  | EvNative ptr "byte list"
  | Ev_ceph_mount ptr ptr c_int
  | Ev_ceph_is_mounted ptr c_int
  | Ev_ceph_mds_command mds_call mds_out

text \<open>
  The native side: the live blocks of the C heap, the last address handed out, and the
  record of events. The C heap is taken to be unbounded: \<open>malloc\<close> does not fail.
\<close>

record world =
  heap :: "ptr \<Rightarrow> byte list option"
  brk :: ptr
  trace :: "event list"

text \<open>
  libcephfs itself is not part of the package: it is a parameter. Each function answers
  from its arguments and from the native side as it is when called (the trace holds the
  whole history, so an answer may depend on earlier calls).
\<close>

record libcephfs =
  ceph_mount :: "ptr \<Rightarrow> ptr \<Rightarrow> world \<Rightarrow> c_int"
  ceph_is_mounted :: "ptr \<Rightarrow> world \<Rightarrow> c_int"
  ceph_mds_command :: "mds_call \<Rightarrow> world \<Rightarrow> mds_reply"

text \<open>
  A Go call ends in one of three ways: it returns, it panics (the deferred calls run),
  or the runtime stops the process with a fatal error (nothing runs afterwards).
\<close>

datatype go_panic = IndexOutOfRange nat nat | LengthOutOfRange

datatype 'a outcome = Returned 'a | Panicked go_panic | Died

section \<open>The cgo helpers\<close>

definition log :: "event \<Rightarrow> world \<Rightarrow> world" where
  "log e w = w\<lparr>trace := trace w @ [e]\<rparr>"

text \<open>\<open>len\<close> of a slice or string, a Go \<open>int\<close>.\<close>

definition len :: "'a list \<Rightarrow> go_int" where
  "len xs = of_nat (length xs)"

text \<open>\<open>string(b)\<close> for a \<open>[]byte\<close>: the bytes, none for \<open>nil\<close>.\<close>

fun string_of :: "go_bytes \<Rightarrow> go_string" where
  "string_of None = []"
| "string_of (Some b) = b"

text \<open>
  \<open>C.CString(s)\<close>: a fresh block of \<open>len(s) + 1\<close> bytes holding every byte of \<open>s\<close>
  and a final zero.
\<close>

definition CString :: "go_string \<Rightarrow> world \<Rightarrow> ptr \<times> world" where
  "CString s w =
     (let p = Suc (brk w)
      in (p, log (EvCString p) (w\<lparr>heap := (heap w)(p \<mapsto> s @ [0]), brk := p\<rparr>)))"

text \<open>\<open>C.free(p)\<close>\<close>

definition C_free :: "ptr \<Rightarrow> world \<Rightarrow> world" where
  "C_free p w = log (EvFree p) (w\<lparr>heap := (heap w)(p := None)\<rparr>)"

text \<open>
  Reading \<open>n\<close> bytes at \<open>p\<close>: outside a live block the read is a memory fault.
\<close>

definition read_bytes :: "ptr \<Rightarrow> nat \<Rightarrow> world \<Rightarrow> byte list option" where
  "read_bytes p n w =
     (case heap w p of
        None \<Rightarrow> None
      | Some b \<Rightarrow> if n \<le> length b then Some (take n b) else None)"

text \<open>
  \<open>C.GoStringN(p, n)\<close> is the runtime's \<open>gostringn(p, int(n))\<close>: the empty string for
  \<open>n = 0\<close>; otherwise it allocates \<open>n\<close> bytes with no check of the range and copies. A
  negative \<open>n\<close> is a size the allocator cannot serve: the runtime stops with the fatal
  error "out of memory", which is not a panic and unwinds no deferred call.
\<close>

definition GoStringN :: "ptr \<Rightarrow> c_int \<Rightarrow> world \<Rightarrow> go_string outcome \<times> world" where
  "GoStringN p n w =
     (let w' = log (EvGoStringN p n) w
      in if n = 0 then (Returned [], w')
         else if sint n < 0 then (Died, w')
         else case read_bytes p (nat (sint n)) w of
                None \<Rightarrow> (Died, w')
              | Some b \<Rightarrow> (Returned b, w'))"

text \<open>
  \<open>C.GoBytes(p, n)\<close> is the runtime's \<open>gobytes(p, int(n))\<close>: an empty slice that is not
  \<open>nil\<close> for \<open>n = 0\<close>, the panic "gobytes: length out of range" for a negative \<open>n\<close>,
  otherwise a copy of \<open>n\<close> bytes.
\<close>

definition GoBytes :: "ptr \<Rightarrow> c_int \<Rightarrow> world \<Rightarrow> go_bytes outcome \<times> world" where
  "GoBytes p n w =
     (let w' = log (EvGoBytes p n) w
      in if n = 0 then (Returned (Some []), w')
         else if sint n < 0 then (Panicked LengthOutOfRange, w')
         else case read_bytes p (nat (sint n)) w of
                None \<Rightarrow> (Died, w')
              | Some b \<Rightarrow> (Returned (Some b), w'))"

text \<open>Sequencing: what follows a call runs only when the call returned.\<close>

fun and_then :: "'a outcome \<times> world \<Rightarrow> ('a \<Rightarrow> world \<Rightarrow> 'b outcome \<times> world) \<Rightarrow> 'b outcome \<times> world" where
  "and_then (Returned x, w) f = f x w"
| "and_then (Panicked e, w) f = (Panicked e, w)"
| "and_then (Died, w) f = (Died, w)"

text \<open>\<open>defer d\<close>: \<open>d\<close> runs when the body returns and when it panics.\<close>

fun deferred :: "(world \<Rightarrow> world) \<Rightarrow> 'a outcome \<times> world \<Rightarrow> 'a outcome \<times> world" where
  "deferred d (Died, w) = (Died, w)"
| "deferred d (r, w) = (r, d w)"

section \<open>The foreign calls\<close>

definition C_ceph_mount :: "libcephfs \<Rightarrow> ptr \<Rightarrow> ptr \<Rightarrow> world \<Rightarrow> c_int \<times> world" where
  "C_ceph_mount lib cm root w =
     (let r = ceph_mount lib cm root w
      in (r, log (Ev_ceph_mount cm root r) w))"

definition C_ceph_is_mounted :: "libcephfs \<Rightarrow> ptr \<Rightarrow> world \<Rightarrow> c_int \<times> world" where
  "C_ceph_is_mounted lib cm w =
     (let r = ceph_is_mounted lib cm w
      in (r, log (Ev_ceph_is_mounted cm r) w))"

text \<open>A buffer libcephfs allocates for the caller, with the length it reports.\<close>

fun native_out :: "byte list option \<Rightarrow> world \<Rightarrow> (ptr \<times> size_t) \<times> world" where
  "native_out None w = ((nil, 0), w)"
| "native_out (Some b) w =
     (let p = Suc (brk w)
      in ((p, of_nat (length b)),
          log (EvNative p b) (w\<lparr>heap := (heap w)(p \<mapsto> b), brk := p\<rparr>)))"

definition C_ceph_mds_command :: "libcephfs \<Rightarrow> mds_call \<Rightarrow> world \<Rightarrow> mds_out \<times> world" where
  "C_ceph_mds_command lib c w =
     (let r = ceph_mds_command lib c w;
          ((ob, obl), w1) = native_out (reply_outbuf r) w;
          ((os, osl), w2) = native_out (reply_outs r) w1;
          out = \<lparr>ret = reply_ret r, outbuf = ob, outbuflen = obl, outs = os, outslen = osl\<rparr>
      in (out, log (Ev_ceph_mds_command c out) w2))"

text \<open>
  The events of one operation are those it added to the trace. Of a list of events:
  the pointers \<open>C.CString\<close> returned, the pointers given to \<open>C.free\<close>, the pointers
  read through, the buffers libcephfs allocated, the \<open>ceph_mds_command\<close> calls, and the
  events before and after the \<open>ceph_mds_command\<close> call.
\<close>

definition new_events :: "world \<Rightarrow> world \<Rightarrow> event list" where
  "new_events w w' = drop (length (trace w)) (trace w')"

fun cstrings :: "event list \<Rightarrow> ptr list" where
  "cstrings [] = []"
| "cstrings (EvCString p # es) = p # cstrings es"
| "cstrings (e # es) = cstrings es"

fun frees :: "event list \<Rightarrow> ptr list" where
  "frees [] = []"
| "frees (EvFree p # es) = p # frees es"
| "frees (e # es) = frees es"

fun reads :: "event list \<Rightarrow> ptr list" where
  "reads [] = []"
| "reads (EvGoStringN p n # es) = p # reads es"
| "reads (EvGoBytes p n # es) = p # reads es"
| "reads (e # es) = reads es"

fun natives :: "event list \<Rightarrow> (ptr \<times> byte list) list" where
  "natives [] = []"
| "natives (EvNative p b # es) = (p, b) # natives es"
| "natives (e # es) = natives es"

fun mds_calls :: "event list \<Rightarrow> (mds_call \<times> mds_out) list" where
  "mds_calls [] = []"
| "mds_calls (Ev_ceph_mds_command c out # es) = (c, out) # mds_calls es"
| "mds_calls (e # es) = mds_calls es"

fun is_mds_command :: "event \<Rightarrow> bool" where
  "is_mds_command (Ev_ceph_mds_command c out) = True"
| "is_mds_command e = False"

definition before_call :: "event list \<Rightarrow> event list" where
  "before_call es = takeWhile (\<lambda>e. \<not> is_mds_command e) es"

definition after_call :: "event list \<Rightarrow> event list" where
  "after_call es = tl (dropWhile (\<lambda>e. \<not> is_mds_command e) es)"

section \<open>The package\<close>

text \<open>\<open>getError\<close>: \<open>CephFSError(e)\<close> converts the C int to a Go int, keeping its value.\<close>

definition getError :: "c_int \<Rightarrow> go_error" where
  "getError e = (if e = 0 then None else Some (CephFSError (scast e)))"

text \<open>
  \<open>Mount\<close> and \<open>IsMounted\<close> have a pointer receiver: the handle is returned beside the
  result, as the call leaves it.
\<close>

definition Mount :: "libcephfs \<Rightarrow> MountInfo \<Rightarrow> world \<Rightarrow> go_error \<times> MountInfo \<times> world" where
  "Mount lib m w =
     (let (r, w') = C_ceph_mount lib (mount m) nil w
      in (getError r, m, w'))"

definition IsMounted :: "libcephfs \<Rightarrow> MountInfo \<Rightarrow> world \<Rightarrow> bool \<times> MountInfo \<times> world" where
  "IsMounted lib m w =
     (let (r, w') = C_ceph_is_mounted lib (mount m) w
      in (r = 1, m, w'))"

text \<open>The loop \<open>for i, arg := range args { argv[i] = C.CString(string(arg)) }\<close>\<close>

fun CString_range :: "go_bytes list \<Rightarrow> world \<Rightarrow> ptr list \<times> world" where
  "CString_range [] w = ([], w)"
| "CString_range (a # as) w =
     (let (p, w1) = CString (string_of a) w;
          (ps, w2) = CString_range as w1
      in (p # ps, w2))"

text \<open>The deferred loop \<open>for i := range argv { C.free(unsafe.Pointer(argv[i])) }\<close>\<close>

fun free_range :: "ptr list \<Rightarrow> world \<Rightarrow> world" where
  "free_range [] w = w"
| "free_range (p # ps) w = free_range ps (C_free p w)"

text \<open>
  The end of \<open>mdsCommand\<close>, after the foreign call: the status string and the output
  buffer are copied and freed when their reported length is positive, then the result
  is chosen from \<open>ret\<close>. The conversions \<open>C.int(outslen)\<close> and \<open>C.int(outbuflen)\<close> keep
  the low 32 bits.
\<close>

definition copy_out :: "mds_out \<Rightarrow> world \<Rightarrow> (go_bytes \<times> go_string \<times> go_error) outcome \<times> world" where
  "copy_out out w =
     and_then
       (if 0 < outslen out
        then and_then (GoStringN (outs out) (ucast (outslen out)) w)
               (\<lambda>s w'. (Returned s, C_free (outs out) w'))
        else (Returned [], w))
       (\<lambda>info w1.
          and_then
            (if 0 < outbuflen out
             then and_then (GoBytes (outbuf out) (ucast (outbuflen out)) w1)
                    (\<lambda>b w'. (Returned b, C_free (outbuf out) w'))
             else (Returned None, w1))
            (\<lambda>buffer w2.
               if ret out \<noteq> 0 then (Returned (None, info, getError (ret out)), w2)
               else (Returned (buffer, info, None), w2)))"

text \<open>
  The foreign call of \<open>mdsCommand\<close> and what follows it. \<open>&argv[0]\<close> is evaluated before
  the call and panics on an empty \<open>argv\<close>. The conversions \<open>C.size_t(argc)\<close> and
  \<open>C.size_t(inbufLen)\<close> keep the 64 bits.
\<close>

definition mds_body :: "libcephfs \<Rightarrow> MountInfo \<Rightarrow> ptr \<Rightarrow> ptr list \<Rightarrow> go_int \<Rightarrow> ptr \<Rightarrow> go_int \<Rightarrow> world
    \<Rightarrow> (go_bytes \<times> go_string \<times> go_error) outcome \<times> world" where
  "mds_body lib m spec argv argc ib inbufLen w =
     (case argv of
        [] \<Rightarrow> (Panicked (IndexOutOfRange 0 0), w)
      | _ # _ \<Rightarrow>
          let (out, w1) = C_ceph_mds_command lib
                 \<lparr>cmount = mount m, mds_spec = spec, cmd = argv, cmdlen = ucast argc,
                  inbuf = ib, inbuflen = ucast inbufLen\<rparr> w
          in copy_out out w1)"

text \<open>
  \<open>mdsCommand\<close>: the three marshalling steps, then the body under the three deferred
  frees, which run last registered first.
\<close>

definition mdsCommand :: "libcephfs \<Rightarrow> MountInfo \<Rightarrow> go_string \<Rightarrow> go_bytes list \<Rightarrow> go_bytes \<Rightarrow> world
    \<Rightarrow> (go_bytes \<times> go_string \<times> go_error) outcome \<times> world" where
  "mdsCommand lib m mdsSpec args inputBuffer w =
     (let (spec, w1) = CString mdsSpec w;
          argc = len args;
          (argv, w2) = CString_range args w1;
          (ib, w3) = CString (string_of inputBuffer) w2;
          inbufLen = len (string_of inputBuffer)
      in deferred (C_free spec)
           (deferred (free_range argv)
              (deferred (C_free ib)
                 (mds_body lib m spec argv argc ib inbufLen w3))))"

definition MdsCommand :: "libcephfs \<Rightarrow> MountInfo \<Rightarrow> go_string \<Rightarrow> go_bytes list \<Rightarrow> world
    \<Rightarrow> (go_bytes \<times> go_string \<times> go_error) outcome \<times> world" where
  "MdsCommand lib m mdsSpec args w = mdsCommand lib m mdsSpec args None w"

definition MdsCommandWithInputBuffer :: "libcephfs \<Rightarrow> MountInfo \<Rightarrow> go_string \<Rightarrow> go_bytes list \<Rightarrow> go_bytes
    \<Rightarrow> world \<Rightarrow> (go_bytes \<times> go_string \<times> go_error) outcome \<times> world" where
  "MdsCommandWithInputBuffer lib m mdsSpec args inputBuffer w =
     mdsCommand lib m mdsSpec args inputBuffer w"

section \<open>Fake boundaries\<close>

text \<open>
  A native side with nothing allocated and nothing recorded, and a libcephfs that gives
  the same answers whatever it is asked.
\<close>

definition empty_world :: world where
  "empty_world = \<lparr>heap = (\<lambda>p. None), brk = 0, trace = []\<rparr>"

definition fake_lib :: "c_int \<Rightarrow> c_int \<Rightarrow> mds_reply \<Rightarrow> libcephfs" where
  "fake_lib r_mount r_mounted rep =
     \<lparr>ceph_mount = (\<lambda>cm root w. r_mount),
      ceph_is_mounted = (\<lambda>cm w. r_mounted),
      ceph_mds_command = (\<lambda>c w. rep)\<rparr>"

definition no_reply :: mds_reply where
  "no_reply = \<lparr>reply_ret = 0, reply_outbuf = None, reply_outs = None\<rparr>"

section \<open>The error domain\<close>

text \<open>
  C1. For every result code, \<open>getError\<close> gives no error for zero, and for a code that is
  not zero an error whose number, read as a signed integer, is that code.
\<close>

theorem getError_code:
  "getError 0 = None \<and> (e \<noteq> 0 \<longrightarrow> (\<exists>err. getError e = Some err \<and> sint (errno err) = sint e))"
  by (simp add: getError_def sint_up_scast is_up)

theorem getError_code_witness:
  "getError 0 = None \<and> (\<exists>err. getError (- 22) = Some err \<and> sint (errno err) = - 22)"
  using getError_code [of "- 22"] by simp

section \<open>The mount handle\<close>

text \<open>
  C6. \<open>Mount\<close> takes no path. Its one foreign call is \<open>ceph_mount\<close> on the handle's
  context with a \<open>nil\<close> root, and its result is the error of what that call gave.
\<close>

theorem Mount_null_root:
  "new_events w (snd (snd (Mount lib m w)))
     = [Ev_ceph_mount (mount m) nil (ceph_mount lib (mount m) nil w)]
   \<and> fst (Mount lib m w) = getError (ceph_mount lib (mount m) nil w)"
  by (simp add: Mount_def C_ceph_mount_def Let_def new_events_def log_def)

theorem Mount_null_root_witness:
  "new_events empty_world (snd (snd (Mount (fake_lib 0 1 no_reply) \<lparr>mount = 7\<rparr> empty_world)))
     = [Ev_ceph_mount 7 nil 0]
   \<and> fst (Mount (fake_lib 0 1 no_reply) \<lparr>mount = 7\<rparr> empty_world) = None"
  using Mount_null_root [of empty_world "fake_lib 0 1 no_reply" "\<lparr>mount = 7\<rparr>"]
  by (simp add: fake_lib_def getError_def)

text \<open>
  C7. When \<open>Mount\<close> fails, the handle holds the reference to the native context it held
  before the call.
\<close>

theorem Mount_failure_keeps_handle:
  "Mount lib m w = (Some err, m', w') \<Longrightarrow> mount m' = mount m"
  by (auto simp: Mount_def C_ceph_mount_def Let_def)

theorem Mount_failure_keeps_handle_witness:
  "fst (Mount (fake_lib (- 13) 0 no_reply) \<lparr>mount = 7\<rparr> empty_world) = Some (CephFSError (- 13))
   \<and> mount (fst (snd (Mount (fake_lib (- 13) 0 no_reply) \<lparr>mount = 7\<rparr> empty_world))) = 7"
proof -
  let ?r = "Mount (fake_lib (- 13) 0 no_reply) \<lparr>mount = 7\<rparr> empty_world"
  have e: "?r = (Some (CephFSError (- 13)), fst (snd ?r), snd (snd ?r))"
    by (simp add: Mount_def C_ceph_mount_def Let_def fake_lib_def getError_def)
  have f: "fst ?r = Some (CephFSError (- 13))"
    by (simp add: Mount_def C_ceph_mount_def Let_def fake_lib_def getError_def)
  show ?thesis
    using Mount_failure_keeps_handle [OF e] f by simp
qed

text \<open>
  C10. \<open>IsMounted\<close> is true exactly when \<open>ceph_is_mounted\<close> gave 1; a negative value
  is reported as not mounted. The result is a boolean: the operation has no error to
  return. The handle is unchanged and the one foreign call is \<open>ceph_is_mounted\<close>.
\<close>

theorem IsMounted_iff_one:
  "fst (IsMounted lib m w) = (ceph_is_mounted lib (mount m) w = 1)
   \<and> (sint (ceph_is_mounted lib (mount m) w) < 0 \<longrightarrow> \<not> fst (IsMounted lib m w))
   \<and> fst (snd (IsMounted lib m w)) = m
   \<and> new_events w (snd (snd (IsMounted lib m w)))
        = [Ev_ceph_is_mounted (mount m) (ceph_is_mounted lib (mount m) w)]"
  by (auto simp: IsMounted_def C_ceph_is_mounted_def Let_def new_events_def log_def)

theorem IsMounted_iff_one_witness:
  "fst (IsMounted (fake_lib 0 1 no_reply) \<lparr>mount = 7\<rparr> empty_world)
   \<and> \<not> fst (IsMounted (fake_lib 0 2 no_reply) \<lparr>mount = 7\<rparr> empty_world)
   \<and> sint (- 107 :: c_int) < 0
   \<and> \<not> fst (IsMounted (fake_lib 0 (- 107) no_reply) \<lparr>mount = 7\<rparr> empty_world)"
  using IsMounted_iff_one [of "fake_lib 0 1 no_reply" "\<lparr>mount = 7\<rparr>" empty_world]
    IsMounted_iff_one [of "fake_lib 0 2 no_reply" "\<lparr>mount = 7\<rparr>" empty_world]
    IsMounted_iff_one [of "fake_lib 0 (- 107) no_reply" "\<lparr>mount = 7\<rparr>" empty_world]
  by (simp add: fake_lib_def)

section \<open>The command marshaler\<close>

text \<open>
  C9. With no argument, \<open>mdsCommand\<close> panics with index 0 out of range for length 0,
  whatever the other inputs. The target and the input buffer have been allocated by
  then and the deferred calls free them; no foreign call is made.
\<close>

theorem mdsCommand_no_args_panics:
  "fst (mdsCommand lib m mdsSpec [] inputBuffer w) = Panicked (IndexOutOfRange 0 0)
   \<and> new_events w (snd (mdsCommand lib m mdsSpec [] inputBuffer w))
       = [EvCString (Suc (brk w)), EvCString (Suc (Suc (brk w))),
          EvFree (Suc (Suc (brk w))), EvFree (Suc (brk w))]"
  by (simp add: mdsCommand_def mds_body_def CString_def C_free_def Let_def new_events_def log_def)

end
